theory Spec2Isabelle
  imports Complex_Main "HOL-Library.Multiset"
begin

section \<open>Values, exceptions and strings of the Python program\<close>

text \<open>
  The agents pass the workflow state as a dictionary whose values partly come from decoded
  JSON text, so a field written from a reasoning-service answer holds whatever JSON value
  the answer carried. Python floats are idealised as exact rationals, and one \<open>char\<close>
  stands for one character of a Python \<open>str\<close>.
\<close>

datatype json =
    JNull
  | JBool bool
  | JInt int
  | JFloat rat
  | JStr string
  | JArr "json list"
  | JObj "(string \<times> json) list"

text \<open>The exception classes the agents raise or catch. \<open>ServiceError\<close> stands for
  any other \<open>Exception\<close> raised by an external collaborator.\<close>

datatype exn =
    JSONDecodeError
  | KeyError
  | ValueError
  | AttributeError
  | TypeError
  | IndexError
  | RuntimeError
  | UnboundLocalError
  | ServiceError

text \<open>Truth value of a JSON value in a Python condition (\<open>if not x\<close>).\<close>

fun truthy :: "json \<Rightarrow> bool" where
  "truthy JNull = False"
| "truthy (JBool b) = b"
| "truthy (JInt i) = (i \<noteq> 0)"
| "truthy (JFloat r) = (r \<noteq> 0)"
| "truthy (JStr s) = (s \<noteq> [])"
| "truthy (JArr xs) = (xs \<noteq> [])"
| "truthy (JObj kvs) = (kvs \<noteq> [])"

text \<open>\<open>d.get(k, default)\<close>: only a dict has the method.\<close>

fun py_get :: "json \<Rightarrow> string \<Rightarrow> json \<Rightarrow> exn + json" where
  "py_get (JObj kvs) k d = Inr (case map_of kvs k of None \<Rightarrow> d | Some v \<Rightarrow> v)"
| "py_get _ k d = Inl AttributeError"

text \<open>\<open>for item in x\<close>: a list yields its items, a string its characters, a dict its keys.\<close>

fun py_iter :: "json \<Rightarrow> exn + json list" where
  "py_iter (JArr xs) = Inr xs"
| "py_iter (JStr s) = Inr (map (\<lambda>c. JStr [c]) s)"
| "py_iter (JObj kvs) = Inr (map (\<lambda>kv. JStr (fst kv)) kvs)"
| "py_iter _ = Inl TypeError"

text \<open>\<open>len(x)\<close>.\<close>

fun py_len :: "json \<Rightarrow> exn + nat" where
  "py_len (JArr xs) = Inr (length xs)"
| "py_len (JStr s) = Inr (length s)"
| "py_len (JObj kvs) = Inr (length kvs)"
| "py_len _ = Inl TypeError"

text \<open>\<open>str.isspace\<close> on the characters below 256, and \<open>str.strip()\<close>.\<close>

definition py_isspace :: "char \<Rightarrow> bool" where
  "py_isspace c = (of_char c \<in> {9, 10, 11, 12, 13, 28, 29, 30, 31, 32, 133, 160 :: nat})"

definition py_strip :: "string \<Rightarrow> string" where
  "py_strip s = rev (dropWhile py_isspace (rev (dropWhile py_isspace s)))"



text \<open>\<open>sub in s\<close> for strings.\<close>

fun contains :: "string \<Rightarrow> string \<Rightarrow> bool" where
  "contains [] sub = (sub = [])"
| "contains (c # cs) sub = (take (length sub) (c # cs) = sub \<or> contains cs sub)"

text \<open>\<open>s.split(sep)\<close> for a non-empty separator: \<open>skip\<close> counts the characters of a
  matched separator still to be passed over, \<open>cur\<close> holds the current piece reversed.\<close>

fun py_split_aux :: "string \<Rightarrow> nat \<Rightarrow> string \<Rightarrow> string \<Rightarrow> string list" where
  "py_split_aux sep skip cur [] = [rev cur]"
| "py_split_aux sep skip cur (c # cs) =
     (if 0 < skip then py_split_aux sep (skip - 1) cur cs
      else if take (length sep) (c # cs) = sep
        then rev cur # py_split_aux sep (length sep - 1) [] cs
      else py_split_aux sep 0 (c # cur) cs)"

definition py_split :: "string \<Rightarrow> string \<Rightarrow> string list" where
  "py_split s sep = py_split_aux sep 0 [] s"

text \<open>\<open>xs[i]\<close> for a non-negative index.\<close>

definition py_index :: "'a list \<Rightarrow> nat \<Rightarrow> exn + 'a" where
  "py_index xs i = (if i < length xs then Inr (xs ! i) else Inl IndexError)"

text \<open>\<open>xs[:k]\<close>: a negative bound counts from the end.\<close>

definition py_slice_to :: "int \<Rightarrow> 'a list \<Rightarrow> 'a list" where
  "py_slice_to k xs =
     (if 0 \<le> k then take (nat k) xs else take (nat (int (length xs) + k)) xs)"


text \<open>\<open>s.lower()\<close> on the ASCII letters.\<close>

definition lower_char :: "char \<Rightarrow> char" where
  "lower_char c =
     (let n = (of_char c :: nat) in if 65 \<le> n \<and> n \<le> 90 then char_of (n + 32) else c)"

definition py_lower :: "string \<Rightarrow> string" where
  "py_lower s = map lower_char s"

text \<open>The answer may be wrapped in a fenced code block, which is cut out before decoding
  (the same lines stand in the filtering and in the summarization agent).\<close>

definition fence_json :: string where
  "fence_json = [CHR 0x60, CHR 0x60, CHR 0x60, CHR ''j'', CHR ''s'', CHR ''o'', CHR ''n'']"

definition fence :: string where
  "fence = [CHR 0x60, CHR 0x60, CHR 0x60]"

definition strip_fence :: "string \<Rightarrow> exn + string" where
  "strip_fence response =
     (if contains response fence_json then
        (case py_index (py_split response fence_json) 1 of
           Inl e \<Rightarrow> Inl e
         | Inr r \<Rightarrow> (case py_index (py_split r fence) 0 of
                      Inl e \<Rightarrow> Inl e | Inr r' \<Rightarrow> Inr (py_strip r')))
      else if contains response fence then
        (case py_index (py_split response fence) 1 of
           Inl e \<Rightarrow> Inl e
         | Inr r \<Rightarrow> (case py_index (py_split r fence) 0 of
                      Inl e \<Rightarrow> Inl e | Inr r' \<Rightarrow> Inr (py_strip r')))
      else Inr response)"

section \<open>The workflow state\<close>

datatype WorkflowStep =
    START
  | INTENT_UNDERSTANDING
  | RESEARCH
  | FILTER
  | SUMMARIZE
  | DRAFT
  | HUMAN_REVIEW
  | PUBLISH
  | END

text \<open>A post as \<open>RedditClient._parse_post\<close> builds it.\<close>

record post =
  post_id :: string
  title :: string
  content :: string
  author :: string
  subreddit :: string
  url :: string
  permalink :: string
  score :: int
  num_comments :: int
  engagement_score :: int
  created_at :: int
  is_self :: bool

text \<open>A post with the two scores the filtering agent adds.\<close>

record scored_post = post +
  relevance_score :: rat
  combined_score :: rat

text \<open>\<open>WorkflowState\<close> is a \<open>TypedDict\<close> with \<open>total=False\<close>: every key may be absent,
  which is \<open>None\<close> here. The record has the declared keys and the further keys the agents
  and the graph read or write.\<close>

record state =
  workflow_id :: "int option"
  current_step :: "WorkflowStep option"
  user_query :: "string option"
  topic :: "json option"
  scope :: "json option"
  tone :: "json option"
  raw_tweets :: "post list option"
  filtered_tweets :: "scored_post list option"
  summary :: "json option"
  key_trends :: "json option"
  expert_opinions :: "json option"
  draft_content :: "string option"
  draft_version :: "int option"
  draft_id :: "int option"
  feedback_type :: "string option"
  feedback_comments :: "string option"
  review_requested :: "bool option"
  approved :: "bool option"
  revision_requested :: "bool option"
  revision_feedback :: "string option"
  published :: "bool option"
  tweet_id :: "string option"
  tweet_url :: "string option"
  error :: "string option"

definition create_initial_state :: "string \<Rightarrow> int \<Rightarrow> state" where
  "create_initial_state q wid =
     \<lparr> workflow_id = Some wid, current_step = Some START, user_query = Some q,
       topic = None, scope = None, tone = None, raw_tweets = None, filtered_tweets = None,
       summary = None, key_trends = None, expert_opinions = None, draft_content = None,
       draft_version = Some 0, draft_id = None, feedback_type = None,
       feedback_comments = None, review_requested = None, approved = None,
       revision_requested = None, revision_feedback = None, published = Some False,
       tweet_id = None, tweet_url = None, error = None \<rparr>"

text \<open>\<open>state.get(key)\<close> of a flag in a condition: an absent key gives \<open>None\<close>, which is
  false.\<close>

definition flag :: "bool option \<Rightarrow> bool" where
  "flag b = (b = Some True)"

text \<open>\<open>if workflow_id\<close>: an absent or zero id is false.\<close>

definition truthy_id :: "int option \<Rightarrow> bool" where
  "truthy_id w = (case w of None \<Rightarrow> False | Some n \<Rightarrow> n \<noteq> 0)"

section \<open>External collaborators\<close>

text \<open>
  A prompt is the formatted text an agent sends to the reasoning service; the constructor
  names the template and carries the values the template interpolates.
\<close>

datatype prompt =
    IntentPrompt string
  | StrategyPrompt json json
  | ScorePrompt json "(string \<times> string \<times> string) list"
  | InsightPrompt json "(string \<times> string \<times> string option) list"
  | DraftPrompt json json json "json list"
  | RevisionPrompt string string json json

text \<open>
  The services outside the program, as the agents see them:
  \<^item> \<open>llm\<close>: the answer of \<open>BaseAgent.invoke_llm\<close>, \<open>None\<close> when it raises
    \<open>RuntimeError\<close>;
  \<^item> \<open>json_loads\<close>: \<open>json.loads\<close>, \<open>None\<close> when it raises \<open>JSONDecodeError\<close>;
  \<^item> \<open>float_of_str\<close>: \<open>float(s)\<close> of a string, \<open>None\<close> when it raises
    \<open>ValueError\<close>;
  \<^item> \<open>str_of_json\<close>, \<open>str_of_exn\<close>: \<open>str(x)\<close> inside an f-string;
  \<^item> \<open>has_db\<close>: the agent was given a database manager;
  \<^item> \<open>db_create_intent\<close>, \<open>db_query_research\<close>, \<open>db_update_failed\<close>,
    \<open>db_record_approval\<close>: the exception a database call raises, if any;
  \<^item> \<open>db_add_draft\<close>: the id of the stored draft row, \<open>None\<close> when storing raises;
  \<^item> \<open>http_top\<close>, \<open>http_search\<close>: the parsed posts of a Reddit request (empty when the
    request fails, as \<open>get_top_posts\<close> and \<open>search_posts\<close> catch the failure);
  \<^item> \<open>create_tweet\<close>: the id of the published tweet or the exception raised.
\<close>

record env =
  llm :: "prompt \<Rightarrow> string option"
  json_loads :: "string \<Rightarrow> json option"
  float_of_str :: "string \<Rightarrow> rat option"
  str_of_json :: "json \<Rightarrow> string"
  str_of_exn :: "exn \<Rightarrow> string"
  has_db :: bool
  db_create_intent :: "int \<Rightarrow> json \<Rightarrow> json \<Rightarrow> json \<Rightarrow> string \<Rightarrow> exn option"
  db_query_research :: "int \<Rightarrow> exn option"
  db_add_draft :: "int \<Rightarrow> string \<Rightarrow> int \<Rightarrow> int option"
  db_record_approval :: "int option \<Rightarrow> int \<Rightarrow> string \<Rightarrow> exn option"
  db_update_failed :: "int \<Rightarrow> exn option"
  http_top :: "json \<Rightarrow> int \<Rightarrow> json \<Rightarrow> post list"
  http_search :: "json \<Rightarrow> int \<Rightarrow> json \<Rightarrow> post list"
  create_tweet :: "string \<Rightarrow> exn + string"

text \<open>The id passed to the database once \<open>if workflow_id\<close> has succeeded.\<close>

definition the_id :: "int option \<Rightarrow> int" where
  "the_id w = (case w of None \<Rightarrow> 0 | Some n \<Rightarrow> n)"

section \<open>Intent agent\<close>

text \<open>
  \<open>IntentAgent.process\<close>. Each agent returns the state it hands on, or the exception that
  leaves it, together with the prompts it sent to the reasoning service.
\<close>

definition intent_failed :: "env \<Rightarrow> exn \<Rightarrow> string" where
  "intent_failed env e = ''Intent extraction failed: '' @ str_of_exn env e"

definition intent_process :: "env \<Rightarrow> state \<Rightarrow> (exn + state) \<times> prompt list" where
  "intent_process env s =
     (let uq = (case user_query s of None \<Rightarrow> [] | Some q \<Rightarrow> q) in
      if uq = [] then (Inr (s\<lparr>error := Some ''No user query provided''\<rparr>), [])
      else
        (case llm env (IntentPrompt uq) of
           None \<Rightarrow>
             (Inr (s\<lparr>error := Some (intent_failed env RuntimeError)\<rparr>), [IntentPrompt uq])
         | Some response \<Rightarrow>
             (case json_loads env response of
                None \<Rightarrow>
                  (Inr (s\<lparr>error := Some (''Failed to parse intent: ''
                                           @ str_of_exn env JSONDecodeError)\<rparr>),
                   [IntentPrompt uq])
              | Some intent_data \<Rightarrow>
                  (case py_get intent_data ''topic'' (JStr []) of
                     Inl e \<Rightarrow> (Inr (s\<lparr>error := Some (intent_failed env e)\<rparr>), [IntentPrompt uq])
                   | Inr t \<Rightarrow>
                       (case py_get intent_data ''scope'' (JStr ''latest'') of
                          Inl e \<Rightarrow>
                            (Inr (s\<lparr>topic := Some t, error := Some (intent_failed env e)\<rparr>),
                             [IntentPrompt uq])
                        | Inr sc \<Rightarrow>
                            (case py_get intent_data ''tone'' (JStr ''informative'') of
                               Inl e \<Rightarrow>
                                 (Inr (s\<lparr>topic := Some t, scope := Some sc,
                                         error := Some (intent_failed env e)\<rparr>),
                                  [IntentPrompt uq])
                             | Inr tn \<Rightarrow>
                                 (let s1 = s\<lparr>topic := Some t, scope := Some sc, tone := Some tn,
                                              current_step := Some INTENT_UNDERSTANDING\<rparr> in
                                  if truthy_id (workflow_id s) \<and> has_db env then
                                    (case db_create_intent env (the_id (workflow_id s))
                                            t sc tn response of
                                       None \<Rightarrow> (Inr s1, [IntentPrompt uq])
                                     | Some e \<Rightarrow>
                                         (Inr (s1\<lparr>error := Some (intent_failed env e)\<rparr>),
                                          [IntentPrompt uq]))
                                  else (Inr s1, [IntentPrompt uq]))))))))"

section \<open>Research agent\<close>

text \<open>\<open>sorted(xs, key=f, reverse=True)\<close>: descending and stable, equal keys keep their
  original order.\<close>

definition py_sorted_desc :: "('a \<Rightarrow> 'k::linordered_idom) \<Rightarrow> 'a list \<Rightarrow> 'a list" where
  "py_sorted_desc f xs = sort_key (\<lambda>x. - f x) xs"

text \<open>\<open>RedditClient.get_relevant_subreddits\<close>: the first entry of the table whose key is
  inside the lower-cased topic, or holds it, gives its first three subreddits.\<close>

definition subreddit_map :: "(string \<times> string list) list" where
  "subreddit_map =
     [(''ai'', [''artificial'', ''MachineLearning'', ''OpenAI'', ''ChatGPT'', ''singularity'']),
      (''crypto'', [''CryptoCurrency'', ''Bitcoin'', ''ethereum'', ''CryptoMarkets'']),
      (''technology'', [''technology'', ''tech'', ''gadgets'', ''Futurology'']),
      (''politics'', [''politics'', ''worldnews'', ''news'']),
      (''business'', [''business'', ''Economics'', ''stocks'', ''investing'']),
      (''science'', [''science'', ''EverythingScience'', ''askscience'']),
      (''programming'', [''programming'', ''coding'', ''learnprogramming'', ''webdev'']),
      (''gaming'', [''gaming'', ''Games'', ''pcgaming'']),
      (''sports'', [''sports'', ''nfl'', ''nba'', ''soccer''])]"

fun first_match :: "string \<Rightarrow> (string \<times> string list) list \<Rightarrow> string list option" where
  "first_match topic_lower [] = None"
| "first_match topic_lower ((key, subreddits) # rest) =
     (if contains topic_lower key \<or> contains key topic_lower then Some (take 3 subreddits)
      else first_match topic_lower rest)"

definition get_relevant_subreddits :: "json \<Rightarrow> exn + json" where
  "get_relevant_subreddits tp =
     (case tp of
        JStr t \<Rightarrow>
          Inr (JArr (map JStr (case first_match (py_lower t) subreddit_map of
                                 Some subs \<Rightarrow> subs
                               | None \<Rightarrow> [''news'', ''worldnews''])))
      | _ \<Rightarrow> Inl AttributeError)"

text \<open>
  \<open>ResearchAgent._generate_research_strategy\<close>. Only \<open>JSONDecodeError\<close> and
  \<open>KeyError\<close> are caught: a failing reasoning call and an answer that decodes to
  something other than an object leave the function as exceptions. The result is the
  triple of the strategy's \<open>subreddits\<close>, \<open>search_query\<close> and \<open>time_filter\<close>.
\<close>

definition strategy_of_non_dict :: "bool \<Rightarrow> json \<Rightarrow> exn + (json \<times> json \<times> json)" where
  "strategy_of_non_dict found tp =
     (if found then Inl TypeError
      else (case get_relevant_subreddits tp of Inl e \<Rightarrow> Inl e | Inr _ \<Rightarrow> Inl TypeError))"

definition strategy_of_json :: "json \<Rightarrow> json \<Rightarrow> exn + (json \<times> json \<times> json)" where
  "strategy_of_json strategy tp =
     (case strategy of
        JObj kvs \<Rightarrow>
          (case (case map_of kvs ''subreddits'' of
                   None \<Rightarrow> get_relevant_subreddits tp
                 | Some v \<Rightarrow> if truthy v then Inr v else get_relevant_subreddits tp) of
             Inl e \<Rightarrow> Inl e
           | Inr subs \<Rightarrow>
               Inr (subs,
                    (case map_of kvs ''search_query'' of None \<Rightarrow> tp | Some v \<Rightarrow> v),
                    (case map_of kvs ''time_filter'' of None \<Rightarrow> JStr ''day'' | Some v \<Rightarrow> v)))
      | JStr str \<Rightarrow> strategy_of_non_dict (contains str ''subreddits'') tp
      | JArr xs \<Rightarrow> strategy_of_non_dict (JStr ''subreddits'' \<in> set xs) tp
      | _ \<Rightarrow> Inl TypeError)"

definition generate_research_strategy ::
  "env \<Rightarrow> json \<Rightarrow> json \<Rightarrow> (exn + (json \<times> json \<times> json)) \<times> prompt list" where
  "generate_research_strategy env tp sc =
     (let p = StrategyPrompt tp sc in
      case llm env p of
        None \<Rightarrow> (Inl RuntimeError, [p])
      | Some response \<Rightarrow>
          (case json_loads env response of
             None \<Rightarrow>
               (case get_relevant_subreddits tp of
                  Inl e \<Rightarrow> (Inl e, [p])
                | Inr subs \<Rightarrow> (Inr (subs, tp, JStr ''day''), [p]))
           | Some strategy \<Rightarrow> (strategy_of_json strategy tp, [p])))"

text \<open>\<open>RedditClient.get_top_posts\<close> and \<open>RedditClient.search_posts\<close>.\<close>

definition get_top_posts :: "env \<Rightarrow> json \<Rightarrow> int \<Rightarrow> json \<Rightarrow> post list" where
  "get_top_posts env subreddit_name limit time_filter =
     http_top env subreddit_name (min limit 100) time_filter"

definition search_posts :: "env \<Rightarrow> json \<Rightarrow> json \<Rightarrow> int \<Rightarrow> json \<Rightarrow> exn + post list" where
  "search_posts env query subreddits limit time_filter =
     (if truthy subreddits then
        (case py_iter subreddits of
           Inl e \<Rightarrow> Inl e
         | Inr names \<Rightarrow>
             (case py_len subreddits of
                Inl e \<Rightarrow> Inl e
              | Inr n \<Rightarrow>
                  Inr (concat (map (\<lambda>name. get_top_posts env name (limit div int n + 5) time_filter)
                                   names))))
      else Inr (http_search env query limit time_filter))"

text \<open>\<open>ResearchAgent._search_reddit\<close>: any exception of the search gives no posts.\<close>

definition search_reddit :: "env \<Rightarrow> json \<times> json \<times> json \<Rightarrow> post list" where
  "search_reddit env strategy =
     (case strategy of (subs, query, time_filter) \<Rightarrow>
        (case search_posts env query subs 30 time_filter of
           Inl e \<Rightarrow> []
         | Inr posts \<Rightarrow> posts))"

text \<open>\<open>ResearchAgent.process\<close>. Storing the posts is wrapped in a handler that ignores
  every exception and changes nothing of the state, so it is left out.\<close>

definition research_process :: "env \<Rightarrow> state \<Rightarrow> (exn + state) \<times> prompt list" where
  "research_process env s =
     (let tp = (case topic s of None \<Rightarrow> JStr [] | Some v \<Rightarrow> v);
          sc = (case scope s of None \<Rightarrow> JStr ''latest'' | Some v \<Rightarrow> v) in
      if \<not> truthy tp then (Inr (s\<lparr>error := Some ''No topic provided for research''\<rparr>), [])
      else
        (case generate_research_strategy env tp sc of
           (Inl e, lg) \<Rightarrow> (Inl e, lg)
         | (Inr strategy, lg) \<Rightarrow>
             (let posts = search_reddit env strategy;
                  sorted_posts = py_sorted_desc engagement_score posts in
              (Inr (s\<lparr>raw_tweets := Some sorted_posts, current_step := Some RESEARCH\<rparr>), lg))))"

section \<open>Filtering agent\<close>

text \<open>\<open>float(x)\<close> of a decoded value.\<close>

definition py_float :: "env \<Rightarrow> json \<Rightarrow> exn + rat" where
  "py_float env v =
     (case v of
        JInt i \<Rightarrow> Inr (of_int i)
      | JFloat r \<Rightarrow> Inr r
      | JBool b \<Rightarrow> Inr (if b then 1 else 0)
      | JStr str \<Rightarrow> (case float_of_str env str of None \<Rightarrow> Inl ValueError | Some r \<Rightarrow> Inr r)
      | _ \<Rightarrow> Inl TypeError)"

text \<open>
  The loop of \<open>_score_posts\<close> over the items of the answer. The dictionary \<open>scores\<close> is
  an association list with the latest assignment in front. A key that is not a string is
  never equal to a post id, so storing it changes no later lookup; a list or a dict cannot
  be a key at all.
\<close>

fun score_items :: "env \<Rightarrow> json list \<Rightarrow> (string \<times> rat) list \<Rightarrow> exn + (string \<times> rat) list" where
  "score_items env [] scores = Inr scores"
| "score_items env (item # items) scores =
     (case py_get item ''post_id'' JNull of
        Inl e \<Rightarrow> Inl e
      | Inr pid \<Rightarrow>
          (case py_get item ''score'' (JFloat (1 / 2)) of
             Inl e \<Rightarrow> Inl e
           | Inr sc \<Rightarrow>
               if truthy pid then
                 (case py_float env sc of
                    Inl e \<Rightarrow> Inl e
                  | Inr v \<Rightarrow>
                      (case pid of
                         JStr k \<Rightarrow> score_items env items ((k, v) # scores)
                       | JArr _ \<Rightarrow> Inl TypeError
                       | JObj _ \<Rightarrow> Inl TypeError
                       | _ \<Rightarrow> score_items env items scores))
               else score_items env items scores))"

text \<open>The body of the \<open>try\<close> block after the reasoning call.\<close>

definition decode_scores :: "env \<Rightarrow> string \<Rightarrow> exn + (string \<times> rat) list" where
  "decode_scores env response =
     (case strip_fence response of
        Inl e \<Rightarrow> Inl e
      | Inr r \<Rightarrow>
          (case json_loads env r of
             None \<Rightarrow> Inl JSONDecodeError
           | Some data \<Rightarrow>
               (case py_get data ''scores'' (JArr []) of
                  Inl e \<Rightarrow> Inl e
                | Inr lst \<Rightarrow>
                    (case py_iter lst of
                       Inl e \<Rightarrow> Inl e
                     | Inr items \<Rightarrow> score_items env items []))))"

text \<open>\<open>FilteringAgent._score_posts\<close>. The handler names \<open>JSONDecodeError\<close>,
  \<open>KeyError\<close> and \<open>ValueError\<close>; any other exception leaves the function.\<close>

definition score_posts ::
  "env \<Rightarrow> json \<Rightarrow> post list \<Rightarrow> (exn + (string \<times> rat) list) \<times> prompt list" where
  "score_posts env tp posts =
     (if posts = [] then (Inr [], [])
      else
        (let p = ScorePrompt tp
                   (map (\<lambda>post. (post_id post, take 200 (title post), subreddit post))
                        (take 20 posts)) in
         case llm env p of
           None \<Rightarrow> (Inl RuntimeError, [p])
         | Some response \<Rightarrow>
             (case decode_scores env response of
                Inr scores \<Rightarrow> (Inr scores, [p])
              | Inl e \<Rightarrow>
                  if e \<in> {JSONDecodeError, KeyError, ValueError}
                  then (Inr (map (\<lambda>post. (post_id post, 1 / 2)) posts), [p])
                  else (Inl e, [p]))))"

text \<open>The body of the scoring loop of \<open>FilteringAgent.process\<close> for one post.\<close>

definition max_engagement :: "post list \<Rightarrow> int" where
  "max_engagement raw_posts =
     (let m = Max (set (map engagement_score raw_posts)) in if m = 0 then 1 else m)"

definition score_post :: "(string \<times> rat) list \<Rightarrow> post list \<Rightarrow> post \<Rightarrow> scored_post" where
  "score_post relevance_scores raw_posts p =
     (let relevance = (case map_of relevance_scores (post_id p) of None \<Rightarrow> 1 / 2 | Some r \<Rightarrow> r);
          engagement_norm = of_int (engagement_score p) / of_int (max_engagement raw_posts);
          combined = (relevance * (6 / 10)) + (engagement_norm * (4 / 10)) in
      post.extend p (scored_post.fields relevance combined))"

text \<open>
  \<open>FilteringAgent.process\<close> with the agent's \<open>top_k\<close>. The lookup of the stored research
  rows stands outside every handler, so its exception leaves the agent; storing the
  selected posts ignores every exception and changes nothing of the state.
\<close>

definition filtering_process :: "env \<Rightarrow> int \<Rightarrow> state \<Rightarrow> (exn + state) \<times> prompt list" where
  "filtering_process env top_k s =
     (let tp = (case topic s of None \<Rightarrow> JStr [] | Some v \<Rightarrow> v);
          raw_posts = (case raw_tweets s of None \<Rightarrow> [] | Some ps \<Rightarrow> ps) in
      if raw_posts = [] then (Inr (s\<lparr>filtered_tweets := Some []\<rparr>), [])
      else
        (case score_posts env tp raw_posts of
           (Inl e, lg) \<Rightarrow> (Inl e, lg)
         | (Inr relevance_scores, lg) \<Rightarrow>
             (let scored_posts = map (score_post relevance_scores raw_posts) raw_posts;
                  filtered_posts = py_slice_to top_k (py_sorted_desc combined_score scored_posts);
                  s1 = s\<lparr>filtered_tweets := Some filtered_posts, current_step := Some FILTER\<rparr> in
              if truthy_id (workflow_id s) \<and> has_db env then
                (case db_query_research env (the_id (workflow_id s)) of
                   Some e \<Rightarrow> (Inl e, lg)
                 | None \<Rightarrow> (Inr s1, lg))
              else (Inr s1, lg))))"

section \<open>Summarization agent\<close>




section \<open>Drafting agent\<close>








text \<open>Storing a draft row: on success its id goes to the state, a failure is ignored.\<close>

definition save_draft :: "env \<Rightarrow> state \<Rightarrow> string \<Rightarrow> int \<Rightarrow> state \<Rightarrow> state" where
  "save_draft env s draft version s1 =
     (if truthy_id (workflow_id s) \<and> has_db env then
        (case db_add_draft env (the_id (workflow_id s)) draft version of
           Some i \<Rightarrow> s1\<lparr>draft_id := Some i\<rparr>
         | None \<Rightarrow> s1)
      else s1)"



section \<open>Publishing agent\<close>




section \<open>The workflow graph\<close>




text \<open>\<open>WorkflowGraph._should_publish\<close>, the decision of the review branch.\<close>

definition should_publish :: "state \<Rightarrow> string" where
  "should_publish s =
     (if flag (approved s) then ''publish''
      else if flag (revision_requested s) then ''revise''
      else ''end'')"






section \<open>Concrete collaborators for the examples\<close>

text \<open>An environment in which the reasoning service is down, the database accepts every
  call and Reddit has no posts.\<close>

definition env0 :: env where
  "env0 = \<lparr> llm = (\<lambda>p. None), json_loads = (\<lambda>r. None), float_of_str = (\<lambda>x. None),
     str_of_json = (\<lambda>j. []), str_of_exn = (\<lambda>e. []), has_db = True,
     db_create_intent = (\<lambda>w t sc tn r. None), db_query_research = (\<lambda>w. None),
     db_add_draft = (\<lambda>w c v. Some 1), db_record_approval = (\<lambda>w d t. None),
     db_update_failed = (\<lambda>w. None), http_top = (\<lambda>n l t. []), http_search = (\<lambda>q l t. []),
     create_tweet = (\<lambda>t. Inl ServiceError) \<rparr>"

text \<open>An environment in which the reasoning service answers every prompt with the text
  \<open>r\<close> and decoding every text gives \<open>j\<close>.\<close>

definition env_answer :: "string \<Rightarrow> json option \<Rightarrow> env" where
  "env_answer r j = env0\<lparr>llm := (\<lambda>p. Some r), json_loads := (\<lambda>x. j)\<rparr>"

text \<open>A post with \<open>engagement_score = score + (num_comments * 2)\<close>, as \<open>_parse_post\<close>
  computes it.\<close>

definition example_post :: "string \<Rightarrow> int \<Rightarrow> int \<Rightarrow> post" where
  "example_post pid votes comments =
     \<lparr> post_id = pid, title = ''t'', content = ''t'', author = ''u'', subreddit = ''news'',
       url = [], permalink = [], score = votes, num_comments = comments,
       engagement_score = votes + (comments * 2), created_at = 0, is_self = False \<rparr>"


text \<open>A state after research with one candidate.\<close>

definition researched_state :: state where
  "researched_state = (create_initial_state ''ai news'' 1)
     \<lparr> topic := Some (JStr ''ai''), raw_tweets := Some [example_post ''a'' 10 5] \<rparr>"







section \<open>Properties\<close>

subsection \<open>Intent stage\<close>

text \<open>
  C9, as the code has it. The guard of the intent stage tests the query for emptiness
  only. For every state whose user query is absent or empty the stage sets \<open>error\<close> to
  "No user query provided" and sends nothing to the reasoning service; for every other
  query, one of whitespace only included, it sends exactly one prompt, the query itself.
\<close>

theorem intent_empty_query_guard:
  "(user_query s = None \<or> user_query s = Some [] \<longrightarrow>
      intent_process env s = (Inr (s\<lparr>error := Some ''No user query provided''\<rparr>), []))
   \<and> (\<forall>q. user_query s = Some q \<and> q \<noteq> [] \<longrightarrow> snd (intent_process env s) = [IntentPrompt q])"
  by (auto simp: intent_process_def Let_def split: option.splits sum.splits)

theorem intent_empty_query_guard_witness:
  "intent_process env0 (create_initial_state [] 1)
     = (Inr ((create_initial_state [] 1)\<lparr>error := Some ''No user query provided''\<rparr>), [])
   \<and> snd (intent_process env0 (create_initial_state ''hi'' 1)) = [IntentPrompt ''hi'']"
  using intent_empty_query_guard [of "create_initial_state [] 1" env0]
    intent_empty_query_guard [of "create_initial_state ''hi'' 1" env0]
  by (simp add: create_initial_state_def)

text \<open>The claim as stated fails for the query of one blank: it is whitespace only, and
  the stage sends it to the reasoning service.\<close>

theorem whitespace_query_reaches_llm:
  "py_strip '' '' = []
   \<and> snd (intent_process env0 (create_initial_state '' '' 1)) = [IntentPrompt '' '']"
  by (simp add: py_strip_def py_isspace_def intent_process_def create_initial_state_def
      env0_def Let_def)

text \<open>
  C8, as the code has it. When the answer decodes to a JSON object and storing the
  intent does not fail, the intent stage sets no error whatever the object holds: an
  absent topic becomes the empty string, an absent scope "latest", an absent tone
  "informative". The missing topic is reported by the research stage, which then sets
  \<open>error\<close> to "No topic provided for research" without calling any service.
\<close>

theorem intent_defaults:
  assumes "user_query s = Some q" and "q \<noteq> []" and "llm env (IntentPrompt q) = Some r"
    and "json_loads env r = Some (JObj kvs)"
    and "truthy_id (workflow_id s) \<and> has_db env \<longrightarrow>
       db_create_intent env (the_id (workflow_id s))
         (case map_of kvs ''topic'' of None \<Rightarrow> JStr [] | Some v \<Rightarrow> v)
         (case map_of kvs ''scope'' of None \<Rightarrow> JStr ''latest'' | Some v \<Rightarrow> v)
         (case map_of kvs ''tone'' of None \<Rightarrow> JStr ''informative'' | Some v \<Rightarrow> v) r = None"
  shows "\<exists>s'. fst (intent_process env s) = Inr s' \<and> error s' = error s
     \<and> topic s' = Some (case map_of kvs ''topic'' of None \<Rightarrow> JStr [] | Some v \<Rightarrow> v)
     \<and> scope s' = Some (case map_of kvs ''scope'' of None \<Rightarrow> JStr ''latest'' | Some v \<Rightarrow> v)
     \<and> tone s' = Some (case map_of kvs ''tone'' of None \<Rightarrow> JStr ''informative'' | Some v \<Rightarrow> v)
     \<and> (map_of kvs ''topic'' = None \<longrightarrow>
          research_process env s'
            = (Inr (s'\<lparr>error := Some ''No topic provided for research''\<rparr>), []))"
  using assms
  by (auto simp: intent_process_def research_process_def Let_def split: option.splits)

theorem intent_defaults_witness:
  "\<exists>s'. fst (intent_process (env_answer ''{}'' (Some (JObj [])))
               (create_initial_state ''hello'' 1)) = Inr s'
     \<and> error s' = None \<and> topic s' = Some (JStr []) \<and> scope s' = Some (JStr ''latest'')
     \<and> tone s' = Some (JStr ''informative'')
     \<and> research_process (env_answer ''{}'' (Some (JObj []))) s'
         = (Inr (s'\<lparr>error := Some ''No topic provided for research''\<rparr>), [])"
  using intent_defaults [of "create_initial_state ''hello'' 1" "''hello''"
      "env_answer ''{}'' (Some (JObj []))" "''{}''" "[]"]
  by (simp add: env_answer_def env0_def create_initial_state_def)

text \<open>The claim as stated fails for an answer that decodes to the empty object: the
  topic is absent and the intent stage leaves \<open>error\<close> unset.\<close>

theorem absent_topic_sets_no_error:
  "map_sum id error (fst (intent_process (env_answer ''{}'' (Some (JObj [])))
      (create_initial_state ''hello'' 1))) = Inr None"
  by (simp add: intent_process_def env_answer_def env0_def create_initial_state_def Let_def
      truthy_id_def the_id_def)

subsection \<open>Research stage\<close>


lemma set_py_sorted_desc: "set (py_sorted_desc f xs) = set xs"
  by (simp add: py_sorted_desc_def)









subsection \<open>Drafting stage\<close>




lemma draft_content_save_draft [simp]:
  "draft_content (save_draft env s d v s1) = draft_content s1"
  by (simp add: save_draft_def split: option.splits)








subsection \<open>Filtering stage\<close>


lemma set_py_slice_to: "set (py_slice_to k xs) \<subseteq> set xs"
  by (auto simp: py_slice_to_def dest: in_set_takeD)


text \<open>The handler of \<open>_score_posts\<close>: an answer that is not JSON gives every post the
  relevance 0.5.\<close>

lemma score_posts_fallback:
  assumes "posts \<noteq> []"
    and "llm env (ScorePrompt tp (map (\<lambda>post. (post_id post, take 200 (title post), subreddit post))
                                    (take 20 posts))) = Some r"
    and "strip_fence r = Inr r'" and "json_loads env r' = None"
  shows "fst (score_posts env tp posts) = Inr (map (\<lambda>post. (post_id post, 1 / 2)) posts)"
  using assms by (simp add: score_posts_def decode_scores_def Let_def)











text \<open>
  C3. An answer that decodes to a JSON list is not the expected object: reading its
  \<open>scores\<close> raises \<open>AttributeError\<close>, which the handler of \<open>_score_posts\<close> does not
  name, so the exception leaves the filtering stage and no candidate gets a relevance.
\<close>

theorem malformed_scores_escape:
  "filtering_process (env_answer ''[]'' (Some (JArr []))) 5 researched_state
   = (Inl AttributeError, [ScorePrompt (JStr ''ai'') [(''a'', ''t'', ''news'')]])"
  by (simp add: filtering_process_def score_posts_def decode_scores_def strip_fence_def
      fence_def fence_json_def env_answer_def env0_def create_initial_state_def
      researched_state_def example_post_def Let_def)

subsection \<open>The run of the graph\<close>





lemma error_save_draft [simp]: "error (save_draft env s d v s1) = error s1"
  by (simp add: save_draft_def split: option.splits)














subsection \<open>Review branch\<close>

text \<open>
  C10. In the review branch decision approval takes precedence over a revision request:
  the branch is \<open>publish\<close> exactly when the approved flag is set (whatever the
  revision flag), \<open>revise\<close> exactly when approved is unset and revision_requested is set,
  and \<open>end\<close> exactly when both are unset.
\<close>

theorem should_publish_precedence:
  "(should_publish s = ''publish'') = flag (approved s)
   \<and> (should_publish s = ''revise'') = (\<not> flag (approved s) \<and> flag (revision_requested s))
   \<and> (should_publish s = ''end'') = (\<not> flag (approved s) \<and> \<not> flag (revision_requested s))"
  by (simp add: should_publish_def)

end
